theory Spec2Isabelle
  imports Complex_Main
begin

section \<open>Strings and numbers of the scripts\<close>

text \<open>
  A JavaScript string is a sequence of UTF-16 code units; a code unit is modelled as a
  natural number and a string as a list of them. \<open>js\<close> turns an ASCII literal into such a
  string, so that \<open>js ''1/2''\<close> stands for the JavaScript literal \<^verbatim>\<open>"1/2"\<close>.
\<close>

type_synonym jsstring = "nat list"

definition js :: "string \<Rightarrow> jsstring" where
  "js s = map of_char s"

text \<open>
  The white space of \<^verbatim>\<open>String.prototype.trim\<close>, of \<^verbatim>\<open>\s\<close> in a regular expression and of
  the prefix skipped by \<^verbatim>\<open>parseFloat\<close> and \<^verbatim>\<open>parseInt\<close>: the WhiteSpace and LineTerminator
  code points of ECMAScript.
\<close>

definition is_space :: "nat \<Rightarrow> bool" where
  "is_space c \<longleftrightarrow> (9 \<le> c \<and> c \<le> 13) \<or> c = 32 \<or> c = 160 \<or> c = 5760
     \<or> (8192 \<le> c \<and> c \<le> 8202) \<or> c = 8232 \<or> c = 8233 \<or> c = 8239 \<or> c = 8287
     \<or> c = 12288 \<or> c = 65279"

definition is_digit :: "nat \<Rightarrow> bool" where
  "is_digit c \<longleftrightarrow> 48 \<le> c \<and> c \<le> 57"

text \<open>\<^verbatim>\<open>.\<close> in a regular expression without the \<^verbatim>\<open>s\<close> flag: anything but a line terminator.\<close>

definition is_dot :: "nat \<Rightarrow> bool" where
  "is_dot c \<longleftrightarrow> c \<noteq> 10 \<and> c \<noteq> 13 \<and> c \<noteq> 8232 \<and> c \<noteq> 8233"

definition trim :: "jsstring \<Rightarrow> jsstring" where
  "trim s = rev (dropWhile is_space (rev (dropWhile is_space s)))"

text \<open>
  \<^verbatim>\<open>str.replace(pat, rep)\<close> with a one-character string pattern: only the first occurrence is
  replaced. (None of the replacement texts used contains \<^verbatim>\<open>$\<close>.)
\<close>

fun replace_first :: "nat \<Rightarrow> jsstring \<Rightarrow> jsstring \<Rightarrow> jsstring" where
  "replace_first g rep [] = []"
| "replace_first g rep (c # s) = (if c = g then rep @ s else c # replace_first g rep s)"

text \<open>\<^verbatim>\<open>text.split('\n')\<close> and \<^verbatim>\<open>lines.join('\n')\<close>; the empty text splits into one empty line.\<close>

fun split_nl :: "jsstring \<Rightarrow> jsstring list" where
  "split_nl [] = [[]]"
| "split_nl (c # s) =
     (if c = 10 then [] # split_nl s
      else (case split_nl s of [] \<Rightarrow> [[c]] | l # ls \<Rightarrow> (c # l) # ls))"

fun join_nl :: "jsstring list \<Rightarrow> jsstring" where
  "join_nl [] = []"
| "join_nl [l] = l"
| "join_nl (l # ls) = l @ 10 # join_nl ls"

text \<open>
  A JavaScript number is modelled as an exact rational, or one of the three special values
  of IEEE arithmetic. The rounding of doubles (and the overflow of a huge finite value to
  infinity) is not modelled; the sign of zero is not either, and no operation below divides
  by a value that could be a negative zero.
\<close>

datatype jsnum = NaN | PInf | NInf | Fin rat

definition isNaN :: "jsnum \<Rightarrow> bool" where
  "isNaN n \<longleftrightarrow> n = NaN"

text \<open>\<^verbatim>\<open>a < b\<close> on numbers: false as soon as one side is NaN.\<close>

fun jlt :: "jsnum \<Rightarrow> jsnum \<Rightarrow> bool" where
  "jlt NaN _ = False"
| "jlt _ NaN = False"
| "jlt PInf _ = False"
| "jlt _ NInf = False"
| "jlt NInf _ = True"
| "jlt _ PInf = True"
| "jlt (Fin a) (Fin b) = (a < b)"

fun jadd :: "jsnum \<Rightarrow> jsnum \<Rightarrow> jsnum" where
  "jadd NaN _ = NaN"
| "jadd _ NaN = NaN"
| "jadd PInf NInf = NaN"
| "jadd NInf PInf = NaN"
| "jadd PInf _ = PInf"
| "jadd _ PInf = PInf"
| "jadd NInf _ = NInf"
| "jadd _ NInf = NInf"
| "jadd (Fin a) (Fin b) = Fin (a + b)"

text \<open>The sign of a number, for the rules of multiplication and division: -1, 0 or 1.\<close>

fun jsign :: "jsnum \<Rightarrow> int" where
  "jsign NaN = 0"
| "jsign PInf = 1"
| "jsign NInf = - 1"
| "jsign (Fin a) = (if a < 0 then - 1 else if a = 0 then 0 else 1)"

definition jinf :: "int \<Rightarrow> jsnum" where
  "jinf s = (if s = 0 then NaN else if 0 < s then PInf else NInf)"

fun jmul :: "jsnum \<Rightarrow> jsnum \<Rightarrow> jsnum" where
  "jmul NaN _ = NaN"
| "jmul _ NaN = NaN"
| "jmul (Fin a) (Fin b) = Fin (a * b)"
| "jmul a b = jinf (jsign a * jsign b)"

text \<open>
  Division: a finite non-zero value divided by zero is an infinity, zero by zero is NaN,
  and there is no exception.
\<close>

fun jdiv :: "jsnum \<Rightarrow> jsnum \<Rightarrow> jsnum" where
  "jdiv NaN _ = NaN"
| "jdiv _ NaN = NaN"
| "jdiv (Fin a) (Fin b) = (if b = 0 then jinf (jsign (Fin a)) else Fin (a / b))"
| "jdiv (Fin a) _ = Fin 0"
| "jdiv a (Fin b) = jinf (jsign a * (if b < 0 then - 1 else 1))"
| "jdiv _ _ = NaN"

subsection \<open>Reading numbers\<close>

definition digit_val :: "jsstring \<Rightarrow> nat" where
  "digit_val ds = foldl (\<lambda>a c. 10 * a + (c - 48)) 0 ds"

text \<open>
  \<^verbatim>\<open>parseInt(s, 10)\<close>: white space, an optional sign, then the longest run of decimal digits;
  NaN when there is no digit.
\<close>

definition parseInt :: "jsstring \<Rightarrow> jsnum" where
  "parseInt s =
     (let t = dropWhile is_space s;
          neg = (t \<noteq> [] \<and> hd t = 45);
          u = (if t \<noteq> [] \<and> (hd t = 45 \<or> hd t = 43) then tl t else t);
          ds = takeWhile is_digit u
      in if ds = [] then NaN
         else Fin (if neg then - of_nat (digit_val ds) else of_nat (digit_val ds)))"

text \<open>
  The exponent part of a decimal literal: \<^verbatim>\<open>e\<close> or \<^verbatim>\<open>E\<close>, an optional sign and at least one
  digit; 0 when the text does not continue with one.
\<close>

definition exponent :: "jsstring \<Rightarrow> int" where
  "exponent r =
     (if r \<noteq> [] \<and> (hd r = 101 \<or> hd r = 69) then
        (let r1 = tl r;
             neg = (r1 \<noteq> [] \<and> hd r1 = 45);
             r2 = (if r1 \<noteq> [] \<and> (hd r1 = 45 \<or> hd r1 = 43) then tl r1 else r1);
             ds = takeWhile is_digit r2
         in if ds = [] then 0
            else if neg then - int (digit_val ds) else int (digit_val ds))
      else 0)"

definition pow10 :: "int \<Rightarrow> rat" where
  "pow10 e = (if 0 \<le> e then 10 ^ nat e else 1 / 10 ^ nat (- e))"

text \<open>
  \<^verbatim>\<open>parseFloat(s)\<close>: white space, an optional sign, then the longest prefix that is a decimal
  literal (\<^verbatim>\<open>Infinity\<close>, digits with an optional fraction, or a fraction alone, each with an
  optional exponent). The rest of the text is ignored; NaN when no prefix is a literal.
\<close>

definition parseFloat :: "jsstring \<Rightarrow> jsnum" where
  "parseFloat s =
     (let t = dropWhile is_space s;
          neg = (t \<noteq> [] \<and> hd t = 45);
          u = (if t \<noteq> [] \<and> (hd t = 45 \<or> hd t = 43) then tl t else t)
      in if take 8 u = js ''Infinity'' then (if neg then NInf else PInf)
         else
           (let ip = takeWhile is_digit u;
                r1 = dropWhile is_digit u;
                dot = (r1 \<noteq> [] \<and> hd r1 = 46);
                fp = (if dot then takeWhile is_digit (tl r1) else []);
                r2 = (if dot then dropWhile is_digit (tl r1) else r1)
            in if ip = [] \<and> fp = [] then NaN
               else
                 (let m = of_nat (digit_val ip) + of_nat (digit_val fp) / 10 ^ length fp;
                      v = m * pow10 (exponent r2)
                  in Fin (if neg then - v else v))))"

subsection \<open>Writing numbers\<close>

text \<open>
  The decimal digits of an integer, as \<^verbatim>\<open>'' + whole\<close> produces them. (From \<open>10\<^sup>2\<^sup>1\<close> on
  JavaScript switches to exponent notation, which is not modelled: a double of that size
  has no fractional part, and the model prints its digits.)
\<close>

fun nat_str :: "nat \<Rightarrow> jsstring" where
  "nat_str n = (if n < 10 then [48 + n] else nat_str (n div 10) @ [48 + n mod 10])"

declare nat_str.simps [simp del]

definition intToString :: "int \<Rightarrow> jsstring" where
  "intToString i = (if i < 0 then 45 # nat_str (nat (- i)) else nat_str (nat i))"

text \<open>
  \<^verbatim>\<open>x.toFixed(2)\<close> of a finite number: the integer \<open>n\<close> with \<open>n / 100\<close> nearest to \<open>x\<close> (the
  larger one at a tie), printed with two digits after the point.
\<close>

definition toFixed2 :: "rat \<Rightarrow> jsstring" where
  "toFixed2 x =
     (let a = \<bar>x\<bar>;
          n = nat \<lfloor>a * 100 + 1 / 2\<rfloor>;
          body = nat_str (n div 100) @ [46, 48 + (n mod 100) div 10, 48 + n mod 10]
      in if x < 0 then 45 # body else body)"

section \<open>Regular expressions\<close>

text \<open>
  The regular expressions of the scripts use character classes, sequence, alternation, the
  greedy quantifiers \<^verbatim>\<open>?\<close>, \<^verbatim>\<open>+\<close> and \<^verbatim>\<open>*\<close> (the last two on a single character class only),
  capture groups and \<^verbatim>\<open>$\<close>. A matcher state is the captures made so far and the text still
  to be read. \<open>rmatch r st\<close> lists every way \<open>r\<close> can match at the start of the text, in the
  order in which a backtracking matcher tries them: the first element of the list is the
  match JavaScript reports.
\<close>

datatype rx =
    Eps
  | Cls "nat \<Rightarrow> bool"
  | Seq rx rx
  | Alt rx rx
  | Opt rx
  | Plus "nat \<Rightarrow> bool"
  | Star "nat \<Rightarrow> bool"
  | Group nat rx
  | Eos

type_synonym captures = "nat \<Rightarrow> jsstring option"
type_synonym mstate = "captures \<times> jsstring"

text \<open>
  The greedy repetition of a character class: the texts left after reading as many
  characters of the class as possible, then one fewer, and so on down to none.
\<close>

fun star_tails :: "(nat \<Rightarrow> bool) \<Rightarrow> jsstring \<Rightarrow> jsstring list" where
  "star_tails p [] = [[]]"
| "star_tails p (x # xs) = (if p x then star_tails p xs @ [x # xs] else [x # xs])"

fun rmatch :: "rx \<Rightarrow> mstate \<Rightarrow> mstate list" where
  "rmatch Eps st = [st]"
| "rmatch (Cls p) (c, s) = (case s of [] \<Rightarrow> [] | x # xs \<Rightarrow> if p x then [(c, xs)] else [])"
| "rmatch (Seq a b) st = concat (map (rmatch b) (rmatch a st))"
| "rmatch (Alt a b) st = rmatch a st @ rmatch b st"
| "rmatch (Opt a) st = rmatch a st @ [st]"
| "rmatch (Plus p) (c, s) =
     (case s of [] \<Rightarrow> [] | x # xs \<Rightarrow> if p x then map (Pair c) (star_tails p xs) else [])"
| "rmatch (Star p) (c, s) = map (Pair c) (star_tails p s)"
| "rmatch (Group i a) (c, s) =
     map (\<lambda>(c', s'). (c'(i \<mapsto> take (length s - length s') s), s')) (rmatch a (c, s))"
| "rmatch Eos (c, s) = (if s = [] then [(c, s)] else [])"

fun seq :: "rx list \<Rightarrow> rx" where
  "seq [] = Eps"
| "seq (r # rs) = Seq r (seq rs)"

fun alts :: "rx list \<Rightarrow> rx" where
  "alts [] = Seq Eos (Cls (\<lambda>_. False))"
| "alts [r] = r"
| "alts (r # rs) = Alt r (alts rs)"

definition Chr :: "nat \<Rightarrow> rx" where
  "Chr c = Cls (\<lambda>x. x = c)"

text \<open>
  \<^verbatim>\<open>str.match(re)\<close> for an expression that starts with \<^verbatim>\<open>^\<close> (and has no \<^verbatim>\<open>g\<close> or \<^verbatim>\<open>m\<close> flag):
  only the attempt at index 0 can succeed. The result is the captures of the first match,
  or \<open>None\<close> for \<^verbatim>\<open>null\<close>; \<open>exec_rest\<close> also gives the text after the match.
\<close>

definition exec_rest :: "rx \<Rightarrow> jsstring \<Rightarrow> mstate option" where
  "exec_rest r s = (case rmatch r (Map.empty, s) of [] \<Rightarrow> None | m # _ \<Rightarrow> Some m)"

definition exec :: "rx \<Rightarrow> jsstring \<Rightarrow> captures option" where
  "exec r s = map_option fst (exec_rest r s)"

text \<open>A capture group read from a match; a group that took no part reads as empty.\<close>

definition grp :: "captures \<Rightarrow> nat \<Rightarrow> jsstring" where
  "grp m i = (case m i of None \<Rightarrow> [] | Some w \<Rightarrow> w)"

text \<open>
  \<^verbatim>\<open>str.replace(re, '')\<close> for an expression without \<^verbatim>\<open>^\<close> and without the \<^verbatim>\<open>g\<close> flag: the
  matcher is tried at index 0, 1, ... and the first match found is cut out.
\<close>

fun remove_rx :: "rx \<Rightarrow> jsstring \<Rightarrow> jsstring" where
  "remove_rx r [] = (case rmatch r (Map.empty, []) of [] \<Rightarrow> [] | (_, rest) # _ \<Rightarrow> rest)"
| "remove_rx r (c # s) =
     (case rmatch r (Map.empty, c # s) of [] \<Rightarrow> c # remove_rx r s | (_, rest) # _ \<Rightarrow> rest)"

section \<open>The recipe multiplier\<close>

subsection \<open>parseQuantity\<close>

text \<open>
  The table \<^verbatim>\<open>unicodeFracs\<close>, in the order of its keys (the order of the \<^verbatim>\<open>for ... in\<close> loop).
  Each glyph is paired with the text that \<^verbatim>\<open>' ' + unicodeFracs[uf]\<close> appends after the space:
  the number-to-string conversion of the entry (0.25, 0.5, 0.75, 1/3, 2/3, 0.2, 0.4, 0.6,
  0.8, 1/6, 5/6, 0.125, 0.375, 0.625, 0.875 as doubles).
\<close>

definition unicodeFracs :: "(nat \<times> jsstring) list" where
  "unicodeFracs =
     [(188, js ''0.25''), (189, js ''0.5''), (190, js ''0.75''),
      (8531, js ''0.3333333333333333''), (8532, js ''0.6666666666666666''), (8533, js ''0.2''),
      (8534, js ''0.4''), (8535, js ''0.6''), (8536, js ''0.8''),
      (8537, js ''0.16666666666666666''), (8538, js ''0.8333333333333334''), (8539, js ''0.125''),
      (8540, js ''0.375''), (8541, js ''0.625''), (8542, js ''0.875'')]"

text \<open>The loop over the table: \<^verbatim>\<open>if (str.indexOf(uf) >= 0) str = str.replace(uf, ' ' + ...)\<close>.\<close>

fun substitute :: "(nat \<times> jsstring) list \<Rightarrow> jsstring \<Rightarrow> jsstring" where
  "substitute [] str = str"
| "substitute ((uf, v) # tab) str =
     substitute tab (if uf \<in> set str then replace_first uf (32 # v) str else str)"

text \<open>\<^verbatim>\<open>/^(\d+)\s+(\d+)\s*\/\s*(\d+)$/\<close>\<close>

definition mixedRx :: rx where
  "mixedRx = seq [Group 1 (Plus is_digit), Plus is_space, Group 2 (Plus is_digit),
                  Star is_space, Chr 47, Star is_space, Group 3 (Plus is_digit), Eos]"

text \<open>\<^verbatim>\<open>/^(\d+)\s*\/\s*(\d+)$/\<close>\<close>

definition fracRx :: rx where
  "fracRx = seq [Group 1 (Plus is_digit), Star is_space, Chr 47, Star is_space,
                 Group 2 (Plus is_digit), Eos]"

text \<open>\<^verbatim>\<open>/^(\d+)\s+([\d.]+)$/\<close>, with the class \<^verbatim>\<open>[\d.]\<close>\<close>

definition is_decimal :: "nat \<Rightarrow> bool" where
  "is_decimal c \<longleftrightarrow> is_digit c \<or> c = 46"

definition mixedDecRx :: rx where
  "mixedDecRx = seq [Group 1 (Plus is_digit), Plus is_space, Group 2 (Plus is_decimal), Eos]"

text \<open>Lines 26 to 46: the three patterns in turn, then the plain number.\<close>

definition parsePlain :: "jsstring \<Rightarrow> jsnum" where
  "parsePlain str =
     (case exec mixedRx str of
        Some m \<Rightarrow> jadd (parseInt (grp m 1)) (jdiv (parseInt (grp m 2)) (parseInt (grp m 3)))
      | None \<Rightarrow>
      (case exec fracRx str of
         Some m \<Rightarrow> jdiv (parseInt (grp m 1)) (parseInt (grp m 2))
       | None \<Rightarrow>
       (case exec mixedDecRx str of
          Some m \<Rightarrow> jadd (parseInt (grp m 1)) (parseFloat (grp m 2))
        | None \<Rightarrow> (let n = parseFloat str in if isNaN n then NaN else n))))"

definition parseQuantity :: "jsstring \<Rightarrow> jsnum" where
  "parseQuantity s =
     (let str = trim s in
      if str = [] then NaN
      else parsePlain (trim (substitute unicodeFracs str)))"

subsection \<open>formatQuantity\<close>

text \<open>The table \<^verbatim>\<open>fractions\<close>: value and display text, in the order of the array.\<close>

definition fractions :: "(rat \<times> jsstring) list" where
  "fractions =
     [(1 / 8, [8539]), (1 / 6, js ''1/6''), (1 / 4, [188]), (1 / 3, [8531]),
      (3 / 8, [8540]), (1 / 2, [189]), (5 / 8, [8541]), (2 / 3, [8532]),
      (3 / 4, [190]), (5 / 6, js ''5/6''), (7 / 8, [8542])]"

text \<open>
  The loop over the table, with its two \<^verbatim>\<open>return\<close> statements: \<open>Some\<close> text when an entry is
  closer than 0.04 to the fractional part \<open>fracp\<close> (\<^verbatim>\<open>frac\<close> in the source), \<open>None\<close> when
  the loop runs to its end.
\<close>

fun scan_fractions :: "int \<Rightarrow> rat \<Rightarrow> (rat \<times> jsstring) list \<Rightarrow> jsstring option" where
  "scan_fractions whole fracp [] = None"
| "scan_fractions whole fracp ((f, g) # tab) =
     (if \<bar>fracp - f\<bar> < 4 / 100
      then (if whole = 0 then Some g else Some (intToString whole @ 32 # g))
      else scan_fractions whole fracp tab)"

text \<open>\<^verbatim>\<open>/\.?0+$/\<close>\<close>

definition stripRx :: rx where
  "stripRx = seq [Opt (Chr 46), Plus (\<lambda>c. c = 48), Eos]"

text \<open>
  For NaN and the infinities the comparisons of the source decide as follows.
  NaN: \<^verbatim>\<open>n <= 0\<close> is false, \<^verbatim>\<open>whole\<close> and \<^verbatim>\<open>frac\<close> are NaN, every comparison of the loop and
  of the two tests after it is false, \<^verbatim>\<open>whole === 0\<close> is false, and \<^verbatim>\<open>toFixed\<close> gives \<^verbatim>\<open>"NaN"\<close>.
  Infinity: \<^verbatim>\<open>whole\<close> is Infinity, \<^verbatim>\<open>frac\<close> is Infinity - Infinity = NaN, and \<^verbatim>\<open>toFixed\<close> gives
  \<^verbatim>\<open>"Infinity"\<close>. -Infinity: \<^verbatim>\<open>n <= 0\<close> holds.
\<close>

definition formatQuantity :: "jsnum \<Rightarrow> jsstring" where
  "formatQuantity n =
     (case n of
        NaN \<Rightarrow> remove_rx stripRx (js ''NaN'')
      | PInf \<Rightarrow> remove_rx stripRx (js ''Infinity'')
      | NInf \<Rightarrow> js ''0''
      | Fin x \<Rightarrow>
          if x \<le> 0 then js ''0''
          else
            (let whole = \<lfloor>x\<rfloor>; fracp = x - of_int whole in
             case scan_fractions whole fracp fractions of
               Some text \<Rightarrow> text
             | None \<Rightarrow>
                 if fracp < 4 / 100 then intToString whole
                 else if fracp > 96 / 100 then intToString (whole + 1)
                 else if whole = 0 then remove_rx stripRx (toFixed2 x)
                 else remove_rx stripRx (toFixed2 x)))"

subsection \<open>Calculate\<close>

text \<open>
  The character class \<^verbatim>\<open>[\d\u00BC-\u00BE\u2150-\u215E]\<close> and the leading-quantity pattern
  \<^verbatim>\<open>/^([..]+(?:\s*\/\s*\d+)?(?:\s+[..]+(?:\s*\/\s*\d+)?)?)\s+(.*)/\<close>.
\<close>

definition is_qty :: "nat \<Rightarrow> bool" where
  "is_qty c \<longleftrightarrow> is_digit c \<or> (188 \<le> c \<and> c \<le> 190) \<or> (8528 \<le> c \<and> c \<le> 8542)"

definition slashPart :: rx where
  "slashPart = seq [Star is_space, Chr 47, Star is_space, Plus is_digit]"

definition qtyRx :: rx where
  "qtyRx =
     seq [Group 1 (seq [Plus is_qty, Opt slashPart,
                        Opt (seq [Plus is_space, Plus is_qty, Opt slashPart])]),
          Plus is_space, Group 2 (Star is_dot)]"

text \<open>The body of the loop over the lines: the text pushed onto \<^verbatim>\<open>output\<close> for one line.\<close>

definition scaleLine :: "jsnum \<Rightarrow> jsstring \<Rightarrow> jsstring" where
  "scaleLine ratio l =
     (let line = trim l in
      if line = [] then []
      else
        (case exec qtyRx line of
           Some qtyMatch \<Rightarrow>
             (let qty = parseQuantity (grp qtyMatch 1); rest = grp qtyMatch 2 in
              if \<not> isNaN qty then formatQuantity (jmul qty ratio) @ 32 # rest
              else line)
         | None \<Rightarrow> line))"

text \<open>
  Lines 100 to 135 of \<^verbatim>\<open>Calculate\<close>: from the text of the input area and the ratio to the
  text written to the results area.
\<close>

definition scaleText :: "jsnum \<Rightarrow> jsstring \<Rightarrow> jsstring" where
  "scaleText ratio area =
     (let text = trim area in
      if text = [] then []
      else join_nl (map (scaleLine ratio) (split_nl text)))"

text \<open>
  The page as \<^verbatim>\<open>Calculate\<close> sees it: the two serving fields, the input area, the results
  area, and the ratio display (\<open>None\<close> when hidden, else the text shown).
\<close>

record page =
  old :: jsstring
  new :: jsstring
  area :: jsstring
  results :: jsstring
  ratioDisplay :: "jsstring option"

definition jle :: "jsnum \<Rightarrow> jsnum \<Rightarrow> bool" where
  "jle a b \<longleftrightarrow> jlt a b \<or> (a = b \<and> a \<noteq> NaN)"

text \<open>\<^verbatim>\<open>ratio.toFixed(2)\<close> on any number.\<close>

definition toFixed :: "jsnum \<Rightarrow> jsstring" where
  "toFixed n = (case n of NaN \<Rightarrow> js ''NaN'' | PInf \<Rightarrow> js ''Infinity''
                | NInf \<Rightarrow> js ''-Infinity'' | Fin x \<Rightarrow> toFixed2 x)"

definition showRatio :: "bool \<Rightarrow> jsnum \<Rightarrow> page \<Rightarrow> page" where
  "showRatio show ratio pg =
     (if show \<and> ratio \<noteq> NaN \<and> ratio \<noteq> Fin 0
      then pg\<lparr>ratioDisplay := Some (toFixed ratio @ js ''x'')\<rparr>
      else pg\<lparr>ratioDisplay := None\<rparr>)"

definition Calculate :: "page \<Rightarrow> page" where
  "Calculate pg =
     (if old pg = [] \<or> new pg = [] then showRatio False NaN pg
      else
        (let oldServing = parseFloat (old pg); newServing = parseFloat (new pg) in
         if isNaN oldServing \<or> isNaN newServing \<or> jle oldServing (Fin 0) \<or> jle newServing (Fin 0)
         then showRatio False NaN pg
         else
           (let ratio = jdiv newServing oldServing;
                pg1 = showRatio True ratio pg
            in pg1\<lparr>results := scaleText ratio (area pg1)\<rparr>)))"

section \<open>The shopping list\<close>

text \<open>
  \<^verbatim>\<open>toLowerCase\<close>, modelled on the letters of Basic Latin and Latin-1; other code units are
  left as they are.
\<close>

definition lower_unit :: "nat \<Rightarrow> nat" where
  "lower_unit c = (if (65 \<le> c \<and> c \<le> 90) \<or> (192 \<le> c \<and> c \<le> 222 \<and> c \<noteq> 215) then c + 32 else c)"

definition toLowerCase :: "jsstring \<Rightarrow> jsstring" where
  "toLowerCase s = map lower_unit s"

text \<open>\<^verbatim>\<open>replace(/\s+/g, ' ')\<close>: every run of white space becomes one space.\<close>

fun collapse :: "bool \<Rightarrow> jsstring \<Rightarrow> jsstring" where
  "collapse in_run [] = []"
| "collapse in_run (c # s) =
     (if is_space c then (if in_run then collapse True s else 32 # collapse True s)
      else c # collapse False s)"

definition normalizeItem :: "jsstring \<Rightarrow> jsstring" where
  "normalizeItem str = trim (collapse False (toLowerCase str))"

text \<open>
  A letter of a pattern with the \<^verbatim>\<open>i\<close> flag matches itself and its capital; \<open>word\<close> is a
  literal word of such letters.
\<close>

definition ci :: "nat \<Rightarrow> rx" where
  "ci c = Cls (\<lambda>x. x = c \<or> (97 \<le> c \<and> c \<le> 122 \<and> x + 32 = c))"

definition word :: "string \<Rightarrow> rx" where
  "word w = seq (map (\<lambda>ch. ci (of_char ch)) w)"

text \<open>
  The unit words, in the order of the alternatives:
  \<^verbatim>\<open>cups?|tbsp|tsp|oz|lb|lbs|pounds?|ounces?|quarts?|gallons?|cans?|packages?|pkg|bags?|\<close>
  \<^verbatim>\<open>bottles?|jars?|bunche?s?|heads?|cloves?|stalks?|pieces?|slices?|sticks?|pinche?s?|\<close>
  \<^verbatim>\<open>dashe?s?|sm|md|lg|small|medium|large\<close>
\<close>

definition plural :: "string \<Rightarrow> rx" where
  "plural w = Seq (word w) (Opt (ci 115))"

definition plural_es :: "string \<Rightarrow> rx" where
  "plural_es w = Seq (word w) (Seq (Opt (ci 101)) (Opt (ci 115)))"

definition unitRx :: rx where
  "unitRx = alts
     [plural ''cup'', word ''tbsp'', word ''tsp'', word ''oz'', word ''lb'', word ''lbs'',
      plural ''pound'', plural ''ounce'', plural ''quart'', plural ''gallon'', plural ''can'',
      plural ''package'', word ''pkg'', plural ''bag'', plural ''bottle'', plural ''jar'',
      plural_es ''bunch'', plural ''head'', plural ''clove'', plural ''stalk'',
      plural ''piece'', plural ''slice'', plural ''stick'', plural_es ''pinch'',
      plural_es ''dash'', word ''sm'', word ''md'', word ''lg'', word ''small'',
      word ''medium'', word ''large'']"

text \<open>\<^verbatim>\<open>/^[\d\s\/\.]+\s*(...)\s+/i\<close>\<close>

definition is_qchar :: "nat \<Rightarrow> bool" where
  "is_qchar c \<longleftrightarrow> is_digit c \<or> is_space c \<or> c = 47 \<or> c = 46"

definition ingredientRx :: rx where
  "ingredientRx = seq [Plus is_qchar, Star is_space, Group 1 unitRx, Plus is_space]"

text \<open>
  \<^verbatim>\<open>s.replace(/^[\d\s\/\.]+\s*(...)\s+/i, '')\<close>: the ingredient name of a normalized line, the
  text left when a leading quantity and unit are cut off.
\<close>

definition ingredientKey :: "jsstring \<Rightarrow> jsstring" where
  "ingredientKey s = (case exec_rest ingredientRx s of None \<Rightarrow> s | Some (_, rest) \<Rightarrow> rest)"

text \<open>
  \<^verbatim>\<open>excludeSet\<close> is a plain object used as a set. It is modelled by the list of its own keys,
  in the order they were added. Reading \<^verbatim>\<open>excludeSet[k]\<close> also finds the properties that every
  object inherits from \<^verbatim>\<open>Object.prototype\<close>, all of them truthy; the \<^verbatim>\<open>for ... in\<close> loop does not
  list them. Writing \<^verbatim>\<open>excludeSet['__proto__'] = true\<close> runs the inherited setter, which
  ignores a value that is not an object, and adds no key. (The \<^verbatim>\<open>for ... in\<close> loop lists keys
  that look like array indices first; the loop below only asks whether some key matches.)
\<close>

definition inherited :: "jsstring list" where
  "inherited = map js
     [''constructor'', ''__defineGetter__'', ''__defineSetter__'', ''hasOwnProperty'',
      ''__lookupGetter__'', ''__lookupSetter__'', ''isPrototypeOf'', ''propertyIsEnumerable'',
      ''toString'', ''valueOf'', ''__proto__'', ''toLocaleString'']"

definition set_key :: "jsstring list \<Rightarrow> jsstring \<Rightarrow> jsstring list" where
  "set_key keys k = (if k = js ''__proto__'' \<or> k \<in> set keys then keys else keys @ [k])"

definition get_key :: "jsstring list \<Rightarrow> jsstring \<Rightarrow> bool" where
  "get_key keys k \<longleftrightarrow> k \<in> set keys \<or> k \<in> set inherited"

text \<open>The loop that fills \<^verbatim>\<open>excludeSet\<close> from the lines of the exclusion text.\<close>

fun fill_excludeSet :: "jsstring list \<Rightarrow> jsstring list \<Rightarrow> jsstring list" where
  "fill_excludeSet keys [] = keys"
| "fill_excludeSet keys (l # ls) =
     (let eLine = trim l in
      fill_excludeSet (if eLine \<noteq> [] then set_key keys (normalizeItem eLine) else keys) ls)"

text \<open>The loop \<^verbatim>\<open>for (var exKey in excludeSet)\<close> with its \<^verbatim>\<open>break\<close>.\<close>

fun key_match :: "jsstring \<Rightarrow> jsstring list \<Rightarrow> bool" where
  "key_match normalized [] = False"
| "key_match normalized (exKey # keys) =
     (let ingredientPart = ingredientKey normalized;
          exIngredient = ingredientKey exKey
      in if ingredientPart \<noteq> [] \<and> exIngredient \<noteq> [] \<and> ingredientPart = exIngredient then True
         else key_match normalized keys)"

definition is_excluded :: "jsstring list \<Rightarrow> jsstring \<Rightarrow> bool" where
  "is_excluded excludeSet item =
     (let normalized = normalizeItem item in
      if get_key excludeSet normalized then True
      else key_match normalized excludeSet)"

text \<open>
  \<^verbatim>\<open>createList\<close> up to the list \<^verbatim>\<open>finalItems\<close>, from the texts of the areas \<^verbatim>\<open>area\<close> and \<^verbatim>\<open>area_1\<close>; \<open>None\<close> when the
  function returns at once because the recipe text is blank.
\<close>

definition createList :: "jsstring \<Rightarrow> jsstring \<Rightarrow> jsstring list option" where
  "createList recipeArea excludeArea =
     (let recipeText = trim recipeArea in
      if recipeText = [] then None
      else
        (let excludeText = trim excludeArea;
             items = filter (\<lambda>line. line \<noteq> []) (map trim (split_nl recipeText));
             excludeSet = (if excludeText \<noteq> [] then fill_excludeSet [] (split_nl excludeText)
                           else [])
         in Some (filter (\<lambda>item. \<not> is_excluded excludeSet item) items)))"

section \<open>Notions used in the statements\<close>

text \<open>
  \<open>rejects p r\<close>: the expression \<open>r\<close> cannot match a text that starts with a character of
  the class \<open>p\<close>. After a greedy repetition of \<open>p\<close> followed by such an \<open>r\<close>, giving back
  characters never helps, and the repetition reads the whole run at once.
\<close>

definition rejects :: "(nat \<Rightarrow> bool) \<Rightarrow> rx \<Rightarrow> bool" where
  "rejects p r \<longleftrightarrow> (\<forall>c x xs. p x \<longrightarrow> rmatch r (c, x # xs) = [])"

text \<open>A non-empty run of decimal digits, and a (possibly empty) run of white space.\<close>

definition digits :: "jsstring \<Rightarrow> bool" where
  "digits s \<longleftrightarrow> s \<noteq> [] \<and> list_all is_digit s"

definition spaces :: "jsstring \<Rightarrow> bool" where
  "spaces s \<longleftrightarrow> list_all is_space s"

section \<open>Properties of the matcher\<close>

lemma star_tails_dropWhile:
  "\<exists>ts. star_tails p s = dropWhile p s # ts \<and> (\<forall>t\<in>set ts. t \<noteq> [] \<and> p (hd t))"
  by (induction s) auto

lemma concat_tails:
  assumes "\<And>t. t \<noteq> [] \<Longrightarrow> p (hd t) \<Longrightarrow> h t = []"
  shows "concat (map h (star_tails p s)) = h (dropWhile p s)"
proof -
  obtain ts where ts: "star_tails p s = dropWhile p s # ts" "\<forall>t\<in>set ts. t \<noteq> [] \<and> p (hd t)"
    using star_tails_dropWhile by blast
  have "concat (map h ts) = []" using ts(2) assms by simp
  then show ?thesis by (simp add: ts(1))
qed

lemma rejectsD: "rejects p r \<Longrightarrow> t \<noteq> [] \<Longrightarrow> p (hd t) \<Longrightarrow> rmatch r (c, t) = []"
  by (cases t) (auto simp: rejects_def)

lemma seq_star_det:
  assumes "rejects p r"
  shows "rmatch (Seq (Star p) r) (c, s) = rmatch r (c, dropWhile p s)"
proof -
  have "rmatch (Seq (Star p) r) (c, s) = concat (map (\<lambda>t. rmatch r (c, t)) (star_tails p s))"
    by (simp add: comp_def)
  also have "\<dots> = rmatch r (c, dropWhile p s)"
    by (rule concat_tails) (rule rejectsD [OF assms])
  finally show ?thesis .
qed

lemma seq_plus_det:
  assumes "rejects p r"
  shows "rmatch (Seq (Plus p) r) (c, s) =
           (if takeWhile p s = [] then [] else rmatch r (c, dropWhile p s))"
proof (cases s)
  case Nil
  then show ?thesis by simp
next
  case (Cons x xs)
  show ?thesis
  proof (cases "p x")
    case False
    then show ?thesis by (simp add: Cons)
  next
    case True
    have "rmatch (Seq (Plus p) r) (c, s) = concat (map (\<lambda>t. rmatch r (c, t)) (star_tails p xs))"
      by (simp add: Cons True comp_def)
    also have "\<dots> = rmatch r (c, dropWhile p xs)"
      by (rule concat_tails) (rule rejectsD [OF assms])
    finally show ?thesis by (simp add: Cons True)
  qed
qed

lemma seq_group_plus_det:
  assumes "rejects p r"
  shows "rmatch (Seq (Group i (Plus p)) r) (c, s) =
           (if takeWhile p s = [] then [] else rmatch r (c(i \<mapsto> takeWhile p s), dropWhile p s))"
proof (cases s)
  case Nil
  then show ?thesis by simp
next
  case (Cons x xs)
  show ?thesis
  proof (cases "p x")
    case False
    then show ?thesis by (simp add: Cons)
  next
    case True
    define h where "h = (\<lambda>t. rmatch r (c(i \<mapsto> take (length s - length t) s), t))"
    have "rmatch (Seq (Group i (Plus p)) r) (c, s) = concat (map h (star_tails p xs))"
      by (simp add: Cons True comp_def h_def)
    also have "\<dots> = h (dropWhile p xs)"
      by (rule concat_tails) (simp add: h_def rejectsD [OF assms])
    also have "\<dots> = rmatch r (c(i \<mapsto> takeWhile p s), dropWhile p s)"
    proof -
      have "length s - length (dropWhile p s) = length (takeWhile p s)"
        by (metis add_diff_cancel_right' length_append takeWhile_dropWhile_id)
      then have "take (length s - length (dropWhile p s)) s = takeWhile p s"
        by (metis append_eq_conv_conj takeWhile_dropWhile_id)
      then show ?thesis by (simp add: h_def Cons True)
    qed
    finally show ?thesis by (simp add: Cons True)
  qed
qed

lemma rejects_plus: "(\<And>x. p x \<Longrightarrow> \<not> q x) \<Longrightarrow> rejects p (Seq (Plus q) r)"
  by (simp add: rejects_def)

lemma rejects_group_plus: "(\<And>x. p x \<Longrightarrow> \<not> q x) \<Longrightarrow> rejects p (Seq (Group i (Plus q)) r)"
  by (simp add: rejects_def)

lemma rejects_chr: "(\<And>x. p x \<Longrightarrow> x \<noteq> k) \<Longrightarrow> rejects p (Seq (Chr k) r)"
  by (auto simp: rejects_def Chr_def)

lemma rejects_star_chr:
  "(\<And>x. p x \<Longrightarrow> \<not> q x \<and> x \<noteq> k) \<Longrightarrow> rejects p (Seq (Star q) (Seq (Chr k) r))"
  by (auto simp: rejects_def Chr_def)

lemma rejects_eos: "rejects p (Seq Eos r)"
  by (simp add: rejects_def)

lemma rmatch_eos_eps: "rmatch (Seq Eos Eps) (c, s) = (if s = [] then [(c, [])] else [])"
  by simp

lemma rmatch_seq_chr:
  "rmatch (Seq (Chr k) r) (c, s) =
     (case s of [] \<Rightarrow> [] | x # xs \<Rightarrow> if x = k then rmatch r (c, xs) else [])"
  by (simp add: Chr_def split: list.splits)

lemmas det_rules = seq_group_plus_det seq_plus_det seq_star_det rmatch_eos_eps rmatch_seq_chr

lemma digit_not_space: "is_digit x \<Longrightarrow> \<not> is_space x"
  by (auto simp: is_digit_def is_space_def)

lemma space_not_digit: "is_space x \<Longrightarrow> \<not> is_digit x"
  by (auto simp: is_digit_def is_space_def)

lemma digit_not_slash: "is_digit x \<Longrightarrow> x \<noteq> 47"
  by (auto simp: is_digit_def)

lemma space_not_slash: "is_space x \<Longrightarrow> x \<noteq> 47"
  by (auto simp: is_space_def)

lemma rej_digit_space: "rejects is_digit (Seq (Plus is_space) r)"
  by (rule rejects_plus) (rule digit_not_space)

lemma rej_space_digit: "rejects is_space (Seq (Group i (Plus is_digit)) r)"
  by (rule rejects_group_plus) (rule space_not_digit)

lemma rej_digit_slash: "rejects is_digit (Seq (Star is_space) (Seq (Chr 47) r))"
  by (rule rejects_star_chr) (simp add: digit_not_space digit_not_slash)

lemma rej_space_slash: "rejects is_space (Seq (Chr 47) r)"
  by (rule rejects_chr) (rule space_not_slash)

lemma rej_space_decimal: "rejects is_space (Seq (Group i (Plus is_decimal)) r)"
  by (rule rejects_group_plus) (auto simp: is_decimal_def is_space_def is_digit_def)

lemma mixedRx_det:
  "rmatch mixedRx (c, s) =
     (if takeWhile is_digit s = [] then []
      else if takeWhile is_space (dropWhile is_digit s) = [] then []
      else if takeWhile is_digit (dropWhile is_space (dropWhile is_digit s)) = [] then []
      else (case dropWhile is_space (dropWhile is_digit (dropWhile is_space (dropWhile is_digit s))) of
              [] \<Rightarrow> []
            | x # s4 \<Rightarrow>
                if x = 47
                then if takeWhile is_digit (dropWhile is_space s4) = [] then []
                     else rmatch (Seq Eos Eps)
                            (c(1 \<mapsto> takeWhile is_digit s,
                               2 \<mapsto> takeWhile is_digit (dropWhile is_space (dropWhile is_digit s)),
                               3 \<mapsto> takeWhile is_digit (dropWhile is_space s4)),
                             dropWhile is_digit (dropWhile is_space s4))
                else []))"
  unfolding mixedRx_def seq.simps
  apply (subst seq_group_plus_det [OF rej_digit_space])
  apply (subst seq_plus_det [OF rej_space_digit])
  apply (subst seq_group_plus_det [OF rej_digit_slash])
  apply (subst seq_star_det [OF rej_space_slash])
  apply (subst rmatch_seq_chr)
  apply (subst seq_star_det [OF rej_space_digit])
  apply (subst seq_group_plus_det [OF rejects_eos])
  apply (rule refl)
  done

lemma fracRx_det:
  "rmatch fracRx (c, s) =
     (if takeWhile is_digit s = [] then []
      else (case dropWhile is_space (dropWhile is_digit s) of
              [] \<Rightarrow> []
            | x # s2 \<Rightarrow>
                if x = 47
                then if takeWhile is_digit (dropWhile is_space s2) = [] then []
                     else rmatch (Seq Eos Eps)
                            (c(1 \<mapsto> takeWhile is_digit s,
                               2 \<mapsto> takeWhile is_digit (dropWhile is_space s2)),
                             dropWhile is_digit (dropWhile is_space s2))
                else []))"
  unfolding fracRx_def seq.simps
  apply (subst seq_group_plus_det [OF rej_digit_slash])
  apply (subst seq_star_det [OF rej_space_slash])
  apply (subst rmatch_seq_chr)
  apply (subst seq_star_det [OF rej_space_digit])
  apply (subst seq_group_plus_det [OF rejects_eos])
  apply (rule refl)
  done

lemma mixedDecRx_det:
  "rmatch mixedDecRx (c, s) =
     (if takeWhile is_digit s = [] then []
      else if takeWhile is_space (dropWhile is_digit s) = [] then []
      else if takeWhile is_decimal (dropWhile is_space (dropWhile is_digit s)) = [] then []
      else rmatch (Seq Eos Eps)
             (c(1 \<mapsto> takeWhile is_digit s,
                2 \<mapsto> takeWhile is_decimal (dropWhile is_space (dropWhile is_digit s))),
              dropWhile is_decimal (dropWhile is_space (dropWhile is_digit s))))"
  unfolding mixedDecRx_def seq.simps
  apply (subst seq_group_plus_det [OF rej_digit_space])
  apply (subst seq_plus_det [OF rej_space_decimal])
  apply (subst seq_group_plus_det [OF rejects_eos])
  apply (rule refl)
  done

subsection \<open>Texts of a known shape\<close>

lemma seg:
  assumes "list_all p xs" "ys = [] \<or> \<not> p (hd ys)"
  shows "takeWhile p (xs @ ys) = xs" and "dropWhile p (xs @ ys) = ys"
  using assms by (induction xs) (auto simp: takeWhile_eq_Nil_iff dropWhile_eq_self_iff neq_Nil_conv)

lemma hd_seg: "list_all q w \<Longrightarrow> q y \<Longrightarrow> q (hd (w @ y # r))"
  by (cases w) auto

lemma hd_seg1: "list_all q w \<Longrightarrow> w \<noteq> [] \<Longrightarrow> q (hd (w @ r))"
  by (cases w) auto

lemma exec_mixed:
  assumes "digits a" "spaces w1" "w1 \<noteq> []" "digits b" "spaces w2" "spaces w3" "digits c"
  shows "rmatch mixedRx (m, a @ w1 @ b @ w2 @ 47 # w3 @ c) = [(m(1 \<mapsto> a, 2 \<mapsto> b, 3 \<mapsto> c), [])]"
proof -
  let ?s5 = "w3 @ c" let ?s3 = "w2 @ 47 # ?s5" let ?s2 = "b @ ?s3" let ?s1 = "w1 @ ?s2"
  have a: "list_all is_digit a" "a \<noteq> []" and b: "list_all is_digit b" "b \<noteq> []"
    and c: "list_all is_digit c" "c \<noteq> []" using assms by (auto simp: digits_def)
  have w: "list_all is_space w1" "list_all is_space w2" "list_all is_space w3"
    using assms by (auto simp: spaces_def)
  have 1: "takeWhile is_digit (a @ ?s1) = a" "dropWhile is_digit (a @ ?s1) = ?s1"
    using hd_seg1 [OF w(1) \<open>w1 \<noteq> []\<close>, of ?s2] by (auto intro!: seg a dest: space_not_digit)
  have 2: "takeWhile is_space ?s1 = w1" "dropWhile is_space ?s1 = ?s2"
    using hd_seg1 [OF b, of ?s3] by (auto intro!: seg w dest: digit_not_space)
  have "\<not> is_digit (hd ?s3)"
    using w(2) by (cases w2) (auto simp: is_digit_def dest: space_not_digit)
  then have 3: "takeWhile is_digit ?s2 = b" "dropWhile is_digit ?s2 = ?s3"
    by (auto intro!: seg b)
  have 4: "dropWhile is_space ?s3 = 47 # ?s5"
    by (rule seg) (auto simp: w is_space_def)
  have 5: "dropWhile is_space ?s5 = c"
    using hd_seg1 [OF c, of "[]"] by (auto intro!: seg(2) w dest: digit_not_space)
  have 6: "takeWhile is_digit c = c" "dropWhile is_digit c = []"
    using seg [OF c(1), of "[]"] by auto
  show ?thesis
    using a b c w assms(3) by (simp add: mixedRx_det 1 2 3 4 5 6 Let_def list_all_iff)
qed


lemma trim_id:
  assumes "s \<noteq> []" "\<not> is_space (hd s)" "\<not> is_space (last s)"
  shows "trim s = s"
proof -
  have 1: "dropWhile is_space s = s" using assms by (simp add: dropWhile_eq_self_iff)
  have "dropWhile is_space (rev s) = rev s"
    using assms by (simp add: dropWhile_eq_self_iff hd_rev)
  then show ?thesis by (simp add: trim_def 1)
qed

lemma substitute_clean: "\<forall>g\<in>fst ` set tab. g \<notin> set s \<Longrightarrow> substitute tab s = s"
  by (induction tab arbitrary: s) auto

lemma plain_not_glyph: "is_digit c \<or> is_space c \<or> c = 47 \<or> c = 46 \<Longrightarrow> c \<notin> fst ` set unicodeFracs"
  by (auto simp: unicodeFracs_def is_digit_def is_space_def)

lemma digits_hd: "digits a \<Longrightarrow> is_digit (hd a)" and digits_last: "digits a \<Longrightarrow> is_digit (last a)"
  by (cases a; auto simp: digits_def list_all_iff)+

lemma parseInt_digits: 
  assumes "digits a" shows "parseInt a = Fin (of_nat (digit_val a))"
proof -
  have h: "is_digit (hd a)" "a \<noteq> []" "list_all is_digit a" using assms digits_hd by (auto simp: digits_def)
  have 1: "dropWhile is_space a = a" using h by (simp add: dropWhile_eq_self_iff digit_not_space)
  have 2: "hd a \<noteq> 45" "hd a \<noteq> 43" using h(1) by (auto simp: is_digit_def)
  have 3: "takeWhile is_digit a = a" using h(3) by (simp add: list_all_iff)
  show ?thesis by (simp add: parseInt_def 1 2 3 h Let_def)
qed

lemma exec_frac:
  assumes "digits b" "spaces w2" "spaces w3" "digits c"
  shows "rmatch fracRx (m, b @ w2 @ 47 # w3 @ c) = [(m(1 \<mapsto> b, 2 \<mapsto> c), [])]"
    and "rmatch mixedRx (m, b @ w2 @ 47 # w3 @ c) = []"
proof -
  let ?s5 = "w3 @ c" let ?s3 = "w2 @ 47 # ?s5"
  have b: "list_all is_digit b" "b \<noteq> []"
    and c: "list_all is_digit c" "c \<noteq> []" using assms by (auto simp: digits_def)
  have w: "list_all is_space w2" "list_all is_space w3"
    using assms by (auto simp: spaces_def)
  have "\<not> is_digit (hd ?s3)"
    using w(1) by (cases w2) (auto simp: is_digit_def dest: space_not_digit)
  then have 3: "takeWhile is_digit (b @ ?s3) = b" "dropWhile is_digit (b @ ?s3) = ?s3"
    by (auto intro!: seg b)
  have 4: "dropWhile is_space ?s3 = 47 # ?s5" "takeWhile is_space ?s3 = w2"
    by (rule seg; auto simp: w is_space_def)+
  have 5: "dropWhile is_space ?s5 = c"
    using hd_seg1 [OF c, of "[]"] by (auto intro!: seg(2) w dest: digit_not_space)
  have 6: "takeWhile is_digit c = c" "dropWhile is_digit c = []"
    using seg [OF c(1), of "[]"] by auto
  show "rmatch fracRx (m, b @ w2 @ 47 # w3 @ c) = [(m(1 \<mapsto> b, 2 \<mapsto> c), [])]"
    using b c w by (simp add: fracRx_det 3 4 5 6 Let_def list_all_iff)
  show "rmatch mixedRx (m, b @ w2 @ 47 # w3 @ c) = []"
    using b c w by (simp add: mixedRx_det 3 4 5 6 Let_def list_all_iff is_digit_def)
qed

lemma substitute_plain:
  assumes "\<forall>c\<in>set s. is_digit c \<or> is_space c \<or> c = 47 \<or> c = 46"
  shows "substitute unicodeFracs s = s"
proof (rule substitute_clean, rule ballI)
  fix g assume g: "g \<in> fst ` set unicodeFracs"
  show "g \<notin> set s"
  proof
    assume "g \<in> set s"
    then have "is_digit g \<or> is_space g \<or> g = 47 \<or> g = 46" using assms by blast
    then show False using plain_not_glyph g by blast
  qed
qed

lemma shape_trim:
  assumes "digits a" "digits c"
  shows "trim (a @ u @ c) = a @ u @ c"
proof (rule trim_id)
  show "a @ u @ c \<noteq> []" using assms by (simp add: digits_def)
  show "\<not> is_space (hd (a @ u @ c))" using digits_hd [OF assms(1)] assms(1) by (simp add: digits_def digit_not_space)
  show "\<not> is_space (last (a @ u @ c))" using digits_last [OF assms(2)] assms(2) by (simp add: digits_def digit_not_space)
qed

lemma jdiv_zero: "jdiv (Fin (of_nat n)) (Fin 0) = (if n = 0 then NaN else PInf)"
  by (simp add: jinf_def)

lemmas classes = is_space_def is_digit_def is_decimal_def is_dot_def

lemmas parse_eval = parseQuantity_def parsePlain_def exec_def exec_rest_def grp_def trim_def js_def
  unicodeFracs_def mixedRx_det fracRx_det mixedDecRx_det parseInt_def parseFloat_def digit_val_def
  jinf_def Let_def exponent_def pow10_def isNaN_def classes

section \<open>Zero denominators\<close>

text \<open>
  Claim C9 says that every fraction or mixed number with a zero denominator parses to
  infinity. There is indeed no guard, but the division decides: a zero numerator over a
  zero denominator is NaN, not infinity.
\<close>

theorem zero_by_zero_is_NaN:
  "parseQuantity (js ''0/0'') = NaN \<and> parseQuantity (js ''2 0/0'') = NaN"
  by (simp add: parse_eval)

text \<open>
  Claim C9, amended: for a simple fraction \<open>b/c\<close> and a mixed number \<open>a b/c\<close> (runs of digits
  \<open>a\<close>, \<open>b\<close>, \<open>c\<close>, white space allowed around the slash) whose denominator has the value zero,
  \<^verbatim>\<open>parseQuantity\<close> divides without a guard: the result is infinity when the numerator is not
  zero, and NaN when it is zero.
\<close>

theorem zero_denominator:
  assumes "digits a" "spaces w1" "w1 \<noteq> []" "digits b" "spaces w2" "spaces w3" "digits c"
    and "digit_val c = 0"
  shows "parseQuantity (b @ w2 @ 47 # w3 @ c) = (if digit_val b = 0 then NaN else PInf)
       \<and> parseQuantity (a @ w1 @ b @ w2 @ 47 # w3 @ c) = (if digit_val b = 0 then NaN else PInf)"
proof
  let ?f = "b @ w2 @ 47 # w3 @ c"
  have pl: "\<forall>x\<in>set (a @ w1 @ ?f). is_digit x \<or> is_space x \<or> x = 47 \<or> x = 46"
    using assms by (auto simp: digits_def spaces_def list_all_iff)
  have t1: "trim ?f = ?f" using shape_trim [OF assms(4,7), of "w2 @ 47 # w3"] by simp
  have s1: "substitute unicodeFracs ?f = ?f" using pl by (intro substitute_plain) simp
  have "parsePlain ?f = jdiv (parseInt b) (parseInt c)"
    by (simp add: parsePlain_def exec_def exec_rest_def grp_def exec_frac [OF assms(4,5,6,7)])
  then show "parseQuantity ?f = (if digit_val b = 0 then NaN else PInf)"
    using assms(4,7,8) by (simp add: parseQuantity_def t1 s1 parseInt_digits digits_def jdiv_zero [of "digit_val b"] del: jdiv.simps)
  have t2: "trim (a @ w1 @ ?f) = a @ w1 @ ?f"
    using shape_trim [OF assms(1,7), of "w1 @ b @ w2 @ 47 # w3"] by simp
  have s2: "substitute unicodeFracs (a @ w1 @ ?f) = a @ w1 @ ?f" using pl by (intro substitute_plain)
  have "parsePlain (a @ w1 @ ?f) = jadd (parseInt a) (jdiv (parseInt b) (parseInt c))"
    by (simp add: parsePlain_def exec_def exec_rest_def grp_def exec_mixed [OF assms(1-7)])
  then show "parseQuantity (a @ w1 @ ?f) = (if digit_val b = 0 then NaN else PInf)"
    using assms(1,4,7,8) by (simp add: parseQuantity_def t2 s2 parseInt_digits digits_def jdiv_zero [of "digit_val b"] del: jdiv.simps)
qed



theorem zero_denominator_witness:
  "parseQuantity (js ''1/0'') = PInf \<and> parseQuantity (js ''2 1/0'') = PInf"
proof -
  have d: "digits (js ''2'')" "digits (js ''1'')" "digits (js ''0'')"
    and w: "spaces (js '' '')" "js '' '' \<noteq> []" "spaces []"
    and z: "digit_val (js ''0'') = 0" "digit_val (js ''1'') \<noteq> 0"
    by (simp_all add: js_def digits_def spaces_def is_digit_def is_space_def digit_val_def)
  show ?thesis
    using zero_denominator [OF d(1) w(1) w(2) d(2) w(3) w(3) d(3) z(1)] z(2)
    by (simp add: js_def)
qed

end
